theory Spec2Isabelle
  imports Complex_Main
begin

section \<open>The 2D simulator (chess-physics-sim.tsx)\<close>

text \<open>
  JavaScript numbers are modelled as real numbers, the integer-valued shake intensity as
  an \<open>int\<close>. The physics engine (Matter.js 0.19.0, fetched from a CDN at run time) is not
  part of the repository: a body is a record of the fields that the program reads and
  writes, and each engine function the program calls is modelled by its documented effect
  on those fields.
\<close>

subsection \<open>Bodies\<close>

type_synonym vec = "real \<times> real"

datatype shape = Circle real | Rectangle real real

record body =
  shape :: shape
  position :: vec
  velocity :: vec
  angle :: real
  angularVelocity :: real
  force :: vec
  torque :: real
  isStatic :: bool

text \<open>
  A piece is a body that carries the extra properties \<open>createPieces\<close> attaches to it
  (the display glyph \<open>symbol\<close>, used by the renderer only, is left out).
\<close>

record piece = body +
  isWhite :: bool
  originalX :: real
  originalY :: real
  pieceType :: string

text \<open>\<open>Bodies.circle(x, y, radius, options)\<close>: a body at rest; dynamic unless \<open>isStatic\<close> is set.\<close>

definition circle :: "real \<Rightarrow> real \<Rightarrow> real \<Rightarrow> body" where
  "circle x y r =
     \<lparr>shape = Circle r, position = (x, y), velocity = (0, 0), angle = 0,
      angularVelocity = 0, force = (0, 0), torque = 0, isStatic = False\<rparr>"

text \<open>\<open>Bodies.rectangle(x, y, width, height, {isStatic: true})\<close>, as every call of the program has it.\<close>

definition rectangle :: "real \<Rightarrow> real \<Rightarrow> real \<Rightarrow> real \<Rightarrow> body" where
  "rectangle x y w h =
     \<lparr>shape = Rectangle w h, position = (x, y), velocity = (0, 0), angle = 0,
      angularVelocity = 0, force = (0, 0), torque = 0, isStatic = True\<rparr>"

definition setPosition :: "'a body_scheme \<Rightarrow> vec \<Rightarrow> 'a body_scheme" where
  "setPosition b p = b\<lparr>position := p\<rparr>"

definition setVelocity :: "'a body_scheme \<Rightarrow> vec \<Rightarrow> 'a body_scheme" where
  "setVelocity b v = b\<lparr>velocity := v\<rparr>"

definition setAngularVelocity :: "'a body_scheme \<Rightarrow> real \<Rightarrow> 'a body_scheme" where
  "setAngularVelocity b w = b\<lparr>angularVelocity := w\<rparr>"

definition setAngle :: "'a body_scheme \<Rightarrow> real \<Rightarrow> 'a body_scheme" where
  "setAngle b a = b\<lparr>angle := a\<rparr>"

text \<open>
  \<open>Body.applyForce(body, from, force)\<close> adds the force to the body's accumulator, and
  the moment of the force about the body's centre to its torque.
\<close>

definition applyForce :: "'a body_scheme \<Rightarrow> vec \<Rightarrow> vec \<Rightarrow> 'a body_scheme" where
  "applyForce b from f =
     (let ox = fst from - fst (position b); oy = snd from - snd (position b)
      in b\<lparr>force := (fst (force b) + fst f, snd (force b) + snd f),
            torque := torque b + (ox * snd f - oy * fst f)\<rparr>)"

text \<open>\<open>Body.translate(body, translation)\<close> moves the body by the given vector.\<close>

definition translate :: "'a body_scheme \<Rightarrow> vec \<Rightarrow> 'a body_scheme" where
  "translate b t = setPosition b (fst (position b) + fst t, snd (position b) + snd t)"

subsection \<open>The component's state\<close>

record engine =
  gravity_y :: real
  walls :: "body list"

text \<open>
  \<open>engineRef\<close>, \<open>piecesRef\<close> and \<open>boardRef\<close> are the React refs of the component
  (\<open>None\<close> is \<open>null\<close>), \<open>isLoaded\<close> and \<open>shakeIntensity\<close> its state variables, and
  \<open>matter\<close> says whether \<open>window.Matter\<close> is defined. The engine's world holds the walls;
  the squares and the pieces it also holds are the very objects of \<open>boardRef\<close> and
  \<open>piecesRef\<close>, and are kept there only.
\<close>

record sim =
  matter :: bool
  engineRef :: "engine option"
  piecesRef :: "piece list"
  boardRef :: "body list option"
  isLoaded :: bool
  shakeIntensity :: int

definition initial :: sim where
  "initial = \<lparr>matter = False, engineRef = None, piecesRef = [], boardRef = None,
              isLoaded = False, shakeIntensity = 0\<rparr>"

subsection \<open>World setup\<close>

definition initialBoard :: "string list list" where
  "initialBoard =
    [[''r'', ''n'', ''b'', ''q'', ''k'', ''b'', ''n'', ''r''],
     [''p'', ''p'', ''p'', ''p'', ''p'', ''p'', ''p'', ''p''],
     [''.'', ''.'', ''.'', ''.'', ''.'', ''.'', ''.'', ''.''],
     [''.'', ''.'', ''.'', ''.'', ''.'', ''.'', ''.'', ''.''],
     [''.'', ''.'', ''.'', ''.'', ''.'', ''.'', ''.'', ''.''],
     [''.'', ''.'', ''.'', ''.'', ''.'', ''.'', ''.'', ''.''],
     [''P'', ''P'', ''P'', ''P'', ''P'', ''P'', ''P'', ''P''],
     [''R'', ''N'', ''B'', ''Q'', ''K'', ''B'', ''N'', ''R'']]"

text \<open>\<open>String.prototype.toUpperCase\<close> on the ASCII strings of the layout.\<close>

definition upperChar :: "char \<Rightarrow> char" where
  "upperChar c =
     (if 97 \<le> (of_char c :: nat) \<and> (of_char c :: nat) \<le> 122
      then char_of ((of_char c :: nat) - 32) else c)"

definition toUpperCase :: "string \<Rightarrow> string" where
  "toUpperCase s = map upperChar s"

text \<open>The body of the two loops of \<open>createPieces\<close>, at one cell of the grid.\<close>

definition pieceAt :: "real \<Rightarrow> nat \<Rightarrow> nat \<Rightarrow> piece list" where
  "pieceAt squareSize row col =
     (let piece = initialBoard ! row ! col
      in if piece \<noteq> ''.''
         then (let x = real col * squareSize + squareSize / 2;
                   y = real row * squareSize + squareSize / 2;
                   isWhite = (piece = toUpperCase piece)
               in [body.extend (circle x y 25)
                     (piece.fields isWhite x y piece)])
         else [])"

definition createPieces :: "real \<Rightarrow> piece list" where
  "createPieces squareSize =
     concat (map (\<lambda>row. concat (map (\<lambda>col. pieceAt squareSize row col) [0..<8])) [0..<8])"

definition createWalls :: "body list" where
  "createWalls =
     (let thickness = 20; boardSize = 640
      in [rectangle (boardSize / 2) (- thickness / 2) boardSize thickness,
          rectangle (boardSize / 2) (boardSize + thickness / 2) boardSize thickness,
          rectangle (- thickness / 2) (boardSize / 2) thickness boardSize,
          rectangle (boardSize + thickness / 2) (boardSize / 2) thickness boardSize])"

definition createSquares :: "real \<Rightarrow> body list" where
  "createSquares squareSize =
     concat (map (\<lambda>row. map (\<lambda>col.
        rectangle (real col * squareSize + squareSize / 2)
                  (real row * squareSize + squareSize / 2) squareSize squareSize)
        [0..<8]) [0..<8])"

text \<open>
  \<open>initializePhysics\<close>; \<open>canvas\<close> says whether \<open>canvasRef.current\<close> is set when it runs.
\<close>

definition initializePhysics :: "bool \<Rightarrow> sim \<Rightarrow> sim" where
  "initializePhysics canvas s =
     (if \<not> canvas \<or> \<not> matter s then s
      else s\<lparr>engineRef := Some \<lparr>gravity_y = 0.8, walls = createWalls\<rparr>,
              boardRef := Some (createSquares 80),
              piecesRef := createPieces 80\<rparr>)"

text \<open>The \<open>onload\<close> handler of the script element, which runs once the script has defined \<open>window.Matter\<close>.\<close>

definition onload :: "bool \<Rightarrow> sim \<Rightarrow> sim" where
  "onload canvas s = initializePhysics canvas (s\<lparr>matter := True, isLoaded := True\<rparr>)"

subsection \<open>Shake and reset\<close>

text \<open>
  \<open>Math.random()\<close> is an explicit source of draws: \<open>rnd k\<close> is the result of the
  \<open>k\<close>-th call made while one handler runs, and each loop returns the number of draws
  made so far along with the bodies.
\<close>

fun shakePieces :: "(nat \<Rightarrow> real) \<Rightarrow> nat \<Rightarrow> int \<Rightarrow> piece list \<Rightarrow> piece list \<times> nat" where
  "shakePieces rnd k intensity [] = ([], k)"
| "shakePieces rnd k intensity (piece # rest) =
     (let forceX = (rnd k - 0.5) * real_of_int intensity * 0.01;
          forceY = (rnd (k + 1) - 0.5) * real_of_int intensity * 0.01;
          piece' = applyForce piece (position piece) (forceX, forceY);
          (rest', k') = shakePieces rnd (k + 2) intensity rest
      in (piece' # rest', k'))"

fun shakeSquares :: "(nat \<Rightarrow> real) \<Rightarrow> nat \<Rightarrow> int \<Rightarrow> body list \<Rightarrow> body list \<times> nat" where
  "shakeSquares rnd k intensity [] = ([], k)"
| "shakeSquares rnd k intensity (square # rest) =
     (let shakeX = (rnd k - 0.5) * real_of_int (intensity - 5) * 2;
          shakeY = (rnd (k + 1) - 0.5) * real_of_int (intensity - 5) * 2;
          square' = translate square (shakeX, shakeY);
          (rest', k') = shakeSquares rnd (k + 2) intensity rest
      in (square' # rest', k'))"

text \<open>
  \<open>shakeBoard\<close>. The handler reads \<open>shakeIntensity\<close> from the render that created it;
  handlers run one at a time with a render in between, so that is the current value.
\<close>

definition shakeBoard :: "(nat \<Rightarrow> real) \<Rightarrow> sim \<Rightarrow> sim" where
  "shakeBoard rnd s =
     (if engineRef s = None \<or> \<not> matter s then s
      else
        (let intensity = shakeIntensity s + 1;
             (pieces', k) = shakePieces rnd 0 intensity (piecesRef s);
             board' = (case boardRef s of
                         None \<Rightarrow> None
                       | Some squares \<Rightarrow>
                           if intensity > 5
                           then Some (fst (shakeSquares rnd k intensity squares))
                           else Some squares)
         in s\<lparr>shakeIntensity := min (shakeIntensity s + 1) 10,
              piecesRef := pieces', boardRef := board'\<rparr>))"

definition resetPiece :: "piece \<Rightarrow> piece" where
  "resetPiece piece =
     setAngle (setAngularVelocity (setVelocity
       (setPosition piece (originalX piece, originalY piece)) (0, 0)) 0) 0"

definition resetSquare :: "nat \<Rightarrow> body \<Rightarrow> body" where
  "resetSquare index square =
     (let squareSize = 80;
          row = index div 8;
          col = index mod 8;
          originalX = real col * squareSize + squareSize / 2;
          originalY = real row * squareSize + squareSize / 2
      in setPosition square (originalX, originalY))"

definition resetBoard :: "sim \<Rightarrow> sim" where
  "resetBoard s =
     (if engineRef s = None \<or> \<not> matter s then s
      else s\<lparr>shakeIntensity := 0,
              piecesRef := map resetPiece (piecesRef s),
              boardRef := map_option (\<lambda>squares. map (\<lambda>(index, square). resetSquare index square)
                                        (enumerate 0 squares)) (boardRef s)\<rparr>)"

subsection \<open>Runs of the component\<close>

text \<open>
  What can happen to the component: the script loads, a button is pressed, or the engine
  (started by \<open>Engine.run\<close>) advances the simulation. The engine's solver is outside the
  repository; a step is any function giving each piece, by its index, a new dynamic state.
  Static bodies are not moved by the solver.
\<close>

datatype event =
    Load bool
  | Shake "nat \<Rightarrow> real"
  | Reset
  | Step "nat \<Rightarrow> body \<Rightarrow> body"

definition moveBody :: "(body \<Rightarrow> body) \<Rightarrow> piece \<Rightarrow> piece" where
  "moveBody g p =
     (let b = g (body.truncate p)
      in p\<lparr>position := position b, velocity := velocity b, angle := angle b,
            angularVelocity := angularVelocity b, force := force b, torque := torque b\<rparr>)"

definition engineStep :: "(nat \<Rightarrow> body \<Rightarrow> body) \<Rightarrow> sim \<Rightarrow> sim" where
  "engineStep g s =
     (if engineRef s = None then s
      else s\<lparr>piecesRef := map (\<lambda>(i, p). moveBody (g i) p) (enumerate 0 (piecesRef s))\<rparr>)"

fun handle :: "event \<Rightarrow> sim \<Rightarrow> sim" where
  "handle (Load canvas) s = onload canvas s"
| "handle (Shake rnd) s = shakeBoard rnd s"
| "handle Reset s = resetBoard s"
| "handle (Step g) s = engineStep g s"

fun run :: "event list \<Rightarrow> sim \<Rightarrow> sim" where
  "run [] s = s"
| "run (e # es) s = run es (handle e s)"

section \<open>The 3D scene\<close>

text \<open>
  The 3D scene delegates its physics to cannon (through @react-three/cannon) and its
  rendering to React; neither is part of the repository. A body is a record of its
  position, velocities, rotation and mass, \<open>useCylinder\<close> and \<open>applyImpulse\<close> are
  modelled by their documented effect, and a render of the component tree by what it does
  to the bodies of the pieces. The source holds two versions of the scene, which differ
  in the height at which the board and the pieces are placed; the first one is modelled.
  The board of the scene is shaken by a frame callback of the clock, which is left out.
\<close>

type_synonym vec3 = "real \<times> real \<times> real"

record body3 =
  position3 :: vec3
  velocity3 :: vec3
  angularVelocity3 :: vec3
  rotation3 :: vec3
  mass3 :: real

text \<open>The entries that the effect of \<open>ChessScene\<close> pushes to \<open>newPieces\<close>.\<close>

record pieceData =
  pieceId :: string
  pieceCode :: string
  pieceIsWhite :: bool
  piecePosition :: vec3

definition lowerChar :: "char \<Rightarrow> char" where
  "lowerChar c =
     (if 65 \<le> (of_char c :: nat) \<and> (of_char c :: nat) \<le> 90
      then char_of ((of_char c :: nat) + 32) else c)"

definition toLowerCase :: "string \<Rightarrow> string" where
  "toLowerCase s = map lowerChar s"

definition getPieceHeight :: "string \<Rightarrow> real" where
  "getPieceHeight piece =
     (let p = toLowerCase piece
      in if p = ''p'' then 0.3
         else if p = ''r'' then 0.4
         else if p = ''n'' \<or> p = ''b'' then 0.45
         else if p = ''q'' then 0.5
         else if p = ''k'' then 0.55
         else 0.4)"

text \<open>The template literal \<open>`${rowIndex}-${colIndex}`\<close>, for indices below ten.\<close>

definition idOf :: "nat \<Rightarrow> nat \<Rightarrow> string" where
  "idOf rowIndex colIndex = [char_of (48 + rowIndex), CHR ''-'', char_of (48 + colIndex)]"

definition pieceDataAt :: "nat \<Rightarrow> nat \<Rightarrow> pieceData list" where
  "pieceDataAt rowIndex colIndex =
     (let piece = initialBoard ! rowIndex ! colIndex
      in if piece \<noteq> ''.''
         then (let isWhite = (piece = toUpperCase piece);
                   x = (real colIndex - 3.5) * 0.5;
                   z = (real rowIndex - 3.5) * 0.5;
                   boardSurface = - 0.3 + 0.05;
                   pieceHeight = getPieceHeight piece;
                   pieceY = boardSurface + pieceHeight / 2
               in [\<lparr>pieceId = idOf rowIndex colIndex, pieceCode = piece,
                     pieceIsWhite = isWhite, piecePosition = (x, pieceY, z)\<rparr>])
         else [])"

definition newPieces :: "pieceData list" where
  "newPieces =
     concat (map (\<lambda>rowIndex. concat (map (\<lambda>colIndex. pieceDataAt rowIndex colIndex) [0..<8]))
       [0..<8])"

text \<open>\<open>useCylinder(() => ({mass: 1.0, position, ...}))\<close>: a new body of mass 1, at rest and unrotated.\<close>

definition useCylinder :: "vec3 \<Rightarrow> body3" where
  "useCylinder p =
     \<lparr>position3 = p, velocity3 = (0, 0, 0), angularVelocity3 = (0, 0, 0),
      rotation3 = (0, 0, 0), mass3 = 1\<rparr>"

text \<open>
  \<open>api.applyImpulse(impulse, [0, 0, 0])\<close>: an impulse at the centre of the body changes
  its velocity by the impulse over the mass, and gives it no spin.
\<close>

definition applyImpulse :: "body3 \<Rightarrow> vec3 \<Rightarrow> body3" where
  "applyImpulse b impulse =
     (case (velocity3 b, impulse) of
        ((vx, vy, vz), (ix, iy, iz)) \<Rightarrow>
          b\<lparr>velocity3 := (vx + ix / mass3 b, vy + iy / mass3 b, vz + iz / mass3 b)\<rparr>)"

text \<open>The impulse that the effect of \<open>ChessPiece\<close> draws, starting at draw \<open>k\<close>.\<close>

definition shakeImpulse :: "(nat \<Rightarrow> real) \<Rightarrow> nat \<Rightarrow> int \<Rightarrow> vec3" where
  "shakeImpulse rnd k shakeForce =
     (let forceX = (rnd k - 0.5) * real_of_int shakeForce * 0.4;
          forceZ = (rnd (k + 1) - 0.5) * real_of_int shakeForce * 0.4;
          forceY = rnd (k + 2) * real_of_int shakeForce * 0.15
      in (forceX, forceY, forceZ))"

text \<open>The effect of \<open>ChessPiece\<close>, which runs when the piece mounts and when \<open>shakeForce\<close> changes.\<close>

definition shakeEffect :: "(nat \<Rightarrow> real) \<Rightarrow> nat \<Rightarrow> int \<Rightarrow> body3 \<Rightarrow> body3 \<times> nat" where
  "shakeEffect rnd k shakeForce b =
     (if shakeForce > 0 then (applyImpulse b (shakeImpulse rnd k shakeForce), k + 3)
      else (b, k))"

fun runEffects :: "(nat \<Rightarrow> real) \<Rightarrow> nat \<Rightarrow> int \<Rightarrow> body3 list \<Rightarrow> body3 list" where
  "runEffects rnd k shakeForce [] = []"
| "runEffects rnd k shakeForce (b # bs) =
     (let (b', k') = shakeEffect rnd k shakeForce b
      in b' # runEffects rnd k' shakeForce bs)"

text \<open>
  The state variables of the component, the \<open>pieces\<close> state of \<open>ChessScene\<close>, and the
  bodies of the mounted pieces, in the order of \<open>pieces\<close>.
\<close>

record app =
  shakeIntensity3 :: int
  shakeForce :: int
  resetTrigger :: int
  pieces :: "pieceData list"
  bodies :: "body3 list"

text \<open>
  A render after a change of state. Every piece is keyed by its id and \<open>resetTrigger\<close>:
  when \<open>resetTrigger\<close> has changed, each piece is unmounted and mounted again with a new
  body, its effect runs, and the effect of \<open>ChessScene\<close> stores \<open>newPieces\<close>. Otherwise the
  bodies stay, and the effect of each piece runs again if \<open>shakeForce\<close> has changed.
\<close>

definition render3 :: "(nat \<Rightarrow> real) \<Rightarrow> app \<Rightarrow> app \<Rightarrow> app" where
  "render3 rnd old new =
     (if resetTrigger new \<noteq> resetTrigger old
      then new\<lparr>bodies := runEffects rnd 0 (shakeForce new)
                            (map (\<lambda>pd. useCylinder (piecePosition pd)) (pieces new)),
                pieces := newPieces\<rparr>
      else if shakeForce new \<noteq> shakeForce old
      then new\<lparr>bodies := runEffects rnd 0 (shakeForce new) (bodies new)\<rparr>
      else new)"

text \<open>The scene once it has mounted and its first effect has stored the pieces.\<close>

definition initial3 :: app where
  "initial3 =
     \<lparr>shakeIntensity3 = 0, shakeForce = 0, resetTrigger = 0, pieces = newPieces,
      bodies = map (\<lambda>pd. useCylinder (piecePosition pd)) newPieces\<rparr>"

definition shakeBoard3 :: "(nat \<Rightarrow> real) \<Rightarrow> app \<Rightarrow> app" where
  "shakeBoard3 rnd s =
     (let newIntensity = min (shakeIntensity3 s + 1) 10
      in render3 rnd s (s\<lparr>shakeIntensity3 := newIntensity, shakeForce := newIntensity\<rparr>))"

text \<open>The callback that \<open>shakeBoard\<close> schedules with \<open>setTimeout\<close>.\<close>

definition shakeTimeout :: "(nat \<Rightarrow> real) \<Rightarrow> app \<Rightarrow> app" where
  "shakeTimeout rnd s = render3 rnd s (s\<lparr>shakeForce := 0\<rparr>)"

definition resetBoard3 :: "(nat \<Rightarrow> real) \<Rightarrow> app \<Rightarrow> app" where
  "resetBoard3 rnd s =
     render3 rnd s (s\<lparr>shakeIntensity3 := 0, shakeForce := 0,
                       resetTrigger := resetTrigger s + 1\<rparr>)"

datatype event3 =
    Shake3 "nat \<Rightarrow> real"
  | Timeout3 "nat \<Rightarrow> real"
  | Reset3 "nat \<Rightarrow> real"
  | Step3 "nat \<Rightarrow> body3 \<Rightarrow> body3"

fun handle3 :: "event3 \<Rightarrow> app \<Rightarrow> app" where
  "handle3 (Shake3 rnd) s = shakeBoard3 rnd s"
| "handle3 (Timeout3 rnd) s = shakeTimeout rnd s"
| "handle3 (Reset3 rnd) s = resetBoard3 rnd s"
| "handle3 (Step3 g) s = s\<lparr>bodies := map (\<lambda>(i, b). g i b) (enumerate 0 (bodies s))\<rparr>"

fun run3 :: "event3 list \<Rightarrow> app \<Rightarrow> app" where
  "run3 [] s = s"
| "run3 (e # es) s = run3 es (handle3 e s)"

section \<open>Invariants of the runs\<close>

text \<open>
  What every run of the 2D simulator keeps: the intensity stays in range; before the engine
  exists there are no bodies and the intensity is 0; once it exists, the pieces keep what
  they were created with apart from their dynamic state, and the squares all but their
  position.
\<close>

definition pieceIdentity :: "piece \<Rightarrow> shape \<times> bool \<times> bool \<times> real \<times> real \<times> string" where
  "pieceIdentity p = (shape p, isStatic p, isWhite p, originalX p, originalY p, pieceType p)"

definition unplaced :: "body \<Rightarrow> body" where
  "unplaced b = setPosition b (0, 0)"

definition ready :: "sim \<Rightarrow> bool" where
  "ready s \<longleftrightarrow>
     0 \<le> shakeIntensity s \<and> shakeIntensity s \<le> 10 \<and>
     (case engineRef s of
        None \<Rightarrow> piecesRef s = [] \<and> boardRef s = None \<and> shakeIntensity s = 0
      | Some e \<Rightarrow>
          matter s \<and> e = \<lparr>gravity_y = 0.8, walls = createWalls\<rparr> \<and>
          map pieceIdentity (piecesRef s) = map pieceIdentity (createPieces 80) \<and>
          (case boardRef s of
             None \<Rightarrow> False
           | Some squares \<Rightarrow> map unplaced squares = map unplaced (createSquares 80)))"

text \<open>What every run of the 3D scene keeps.\<close>

definition ready3 :: "app \<Rightarrow> bool" where
  "ready3 s \<longleftrightarrow>
     0 \<le> shakeIntensity3 s \<and> shakeIntensity3 s \<le> 10 \<and> pieces s = newPieces \<and>
     length (bodies s) = length newPieces"

section \<open>Concrete inputs\<close>

text \<open>Two sources of draws: every draw is 0, or every draw is 1/2.\<close>

definition zeroDraws :: "nat \<Rightarrow> real" where
  "zeroDraws k = 0"

definition halfDraws :: "nat \<Rightarrow> real" where
  "halfDraws k = 1 / 2"


text \<open>Two runs: the script loads, then the board is shaken five or ten times with every draw 1/2.\<close>

definition fiveShakes :: "event list" where
  "fiveShakes = [Load True, Shake halfDraws, Shake halfDraws, Shake halfDraws,
     Shake halfDraws, Shake halfDraws]"

definition tenShakes :: "event list" where
  "tenShakes = [Load True, Shake halfDraws, Shake halfDraws, Shake halfDraws,
     Shake halfDraws, Shake halfDraws, Shake halfDraws, Shake halfDraws, Shake halfDraws,
     Shake halfDraws, Shake halfDraws]"

section \<open>Properties\<close>

subsection \<open>Grids and the loops of a shake\<close>

lemma upt8: "[0..<8] = [0, 1, 2, 3, 4, 5, 6, 7::nat]"
  by code_simp

lemma length_grid:
  "length (concat (map (\<lambda>r. map (f r) [0..<n]) [0..<m])) = m * n"
  by (induction m) simp_all


lemma shakePieces_length: "length (fst (shakePieces rnd k n ps)) = length ps"
  by (induction ps arbitrary: k) (simp_all add: split_def Let_def)

lemma shakePieces_draws: "snd (shakePieces rnd k n ps) = k + 2 * length ps"
  by (induction ps arbitrary: k) (simp_all add: split_def Let_def)

lemma shakePieces_nth:
  "i < length ps \<Longrightarrow>
   fst (shakePieces rnd k n ps) ! i =
     applyForce (ps ! i) (position (ps ! i))
       ((rnd (k + 2 * i) - 0.5) * real_of_int n * 0.01,
        (rnd (k + 2 * i + 1) - 0.5) * real_of_int n * 0.01)"
proof (induction ps arbitrary: k i)
  case Nil
  then show ?case by simp
next
  case (Cons p ps)
  show ?case
  proof (cases i)
    case 0
    then show ?thesis by (simp add: split_def Let_def)
  next
    case (Suc j)
    then have "j < length ps" using Cons.prems by simp
    from Cons.IH [OF this, of "k + 2"] show ?thesis
      using Suc by (simp add: split_def Let_def add.commute add.left_commute)
  qed
qed

lemma shakeSquares_length: "length (fst (shakeSquares rnd k n ps)) = length ps"
  by (induction ps arbitrary: k) (simp_all add: split_def Let_def)

lemma shakeSquares_nth:
  "i < length ps \<Longrightarrow>
   fst (shakeSquares rnd k n ps) ! i =
     translate (ps ! i)
       ((rnd (k + 2 * i) - 0.5) * real_of_int (n - 5) * 2,
        (rnd (k + 2 * i + 1) - 0.5) * real_of_int (n - 5) * 2)"
proof (induction ps arbitrary: k i)
  case Nil
  then show ?case by simp
next
  case (Cons p ps)
  show ?case
  proof (cases i)
    case 0
    then show ?thesis by (simp add: split_def Let_def)
  next
    case (Suc j)
    then have "j < length ps" using Cons.prems by simp
    from Cons.IH [OF this, of "k + 2"] show ?thesis
      using Suc by (simp add: split_def Let_def add.commute add.left_commute)
  qed
qed

subsection \<open>The invariant of the 2D simulator\<close>

lemma shakePieces_identity:
  "map pieceIdentity (fst (shakePieces rnd k n ps)) = map pieceIdentity ps"
  by (induction ps arbitrary: k)
     (simp_all add: split_def Let_def applyForce_def pieceIdentity_def)

lemma shakeSquares_unplaced:
  "map unplaced (fst (shakeSquares rnd k n sq)) = map unplaced sq"
  by (induction sq arbitrary: k)
     (simp_all add: split_def Let_def translate_def setPosition_def unplaced_def)

lemma resetPiece_identity: "pieceIdentity (resetPiece p) = pieceIdentity p"
  by (simp add: resetPiece_def pieceIdentity_def setPosition_def setVelocity_def
        setAngularVelocity_def setAngle_def)

lemma resetPieces_identity:
  "map pieceIdentity (map resetPiece ps) = map pieceIdentity ps"
  by (simp add: resetPiece_identity)

lemma resetSquare_unplaced: "unplaced (resetSquare i b) = unplaced b"
  by (simp add: resetSquare_def unplaced_def setPosition_def Let_def)

lemma resetSquares_unplaced:
  "map unplaced (map (\<lambda>(index, square). resetSquare index square) (enumerate k sq)) =
   map unplaced sq"
  by (induction sq arbitrary: k) (simp_all add: resetSquare_unplaced)

lemma moveBody_identity: "pieceIdentity (moveBody g p) = pieceIdentity p"
  by (simp add: moveBody_def pieceIdentity_def Let_def)

lemma engineStep_identity:
  "map pieceIdentity (map (\<lambda>(i, p). moveBody (g i) p) (enumerate k ps)) = map pieceIdentity ps"
  by (induction ps arbitrary: k) (simp_all add: moveBody_identity)

lemma ready_initial: "ready initial"
  by (simp add: ready_def initial_def)

lemma ready_onload: "ready s \<Longrightarrow> ready (onload canvas s)"
  by (auto simp add: ready_def onload_def initializePhysics_def split: option.splits)

lemma ready_shakeBoard: "ready s \<Longrightarrow> ready (shakeBoard rnd s)"
  by (auto simp add: ready_def shakeBoard_def split_def Let_def shakePieces_identity
        shakeSquares_unplaced split: option.splits)

lemma ready_resetBoard: "ready s \<Longrightarrow> ready (resetBoard s)"
  by (auto simp add: ready_def resetBoard_def resetPieces_identity resetSquares_unplaced
        simp del: map_map split: option.splits)

lemma ready_engineStep: "ready s \<Longrightarrow> ready (engineStep g s)"
  by (auto simp add: ready_def engineStep_def engineStep_identity simp del: map_map
        split: option.splits)

lemma ready_handle: "ready s \<Longrightarrow> ready (handle e s)"
  by (cases e) (simp_all add: ready_onload ready_shakeBoard ready_resetBoard ready_engineStep)

lemma ready_run: "ready s \<Longrightarrow> ready (run es s)"
  by (induction es arbitrary: s) (simp_all add: ready_handle)

lemma ready_reachable: "ready (run es initial)"
  by (simp add: ready_run ready_initial)

subsection \<open>What the handlers do to each field\<close>

lemma engineRef_shakeBoard: "engineRef (shakeBoard rnd s) = engineRef s"
  by (simp add: shakeBoard_def split_def Let_def)

lemma matter_shakeBoard: "matter (shakeBoard rnd s) = matter s"
  by (simp add: shakeBoard_def split_def Let_def)

lemma shakeIntensity_shakeBoard:
  "shakeIntensity (shakeBoard rnd s) =
     (if engineRef s = None \<or> \<not> matter s then shakeIntensity s
      else min (shakeIntensity s + 1) 10)"
  by (simp add: shakeBoard_def split_def Let_def)

lemma piecesRef_shakeBoard:
  "piecesRef (shakeBoard rnd s) =
     (if engineRef s = None \<or> \<not> matter s then piecesRef s
      else fst (shakePieces rnd 0 (shakeIntensity s + 1) (piecesRef s)))"
  by (simp add: shakeBoard_def split_def Let_def)

lemma boardRef_shakeBoard:
  "boardRef (shakeBoard rnd s) =
     (if engineRef s = None \<or> \<not> matter s then boardRef s
      else case boardRef s of
             None \<Rightarrow> None
           | Some squares \<Rightarrow>
               if shakeIntensity s + 1 > 5
               then Some (fst (shakeSquares rnd (2 * length (piecesRef s))
                                 (shakeIntensity s + 1) squares))
               else Some squares)"
  by (simp add: shakeBoard_def split_def Let_def shakePieces_draws split: option.splits)


lemma matter_resetBoard: "matter (resetBoard s) = matter s"
  by (simp add: resetBoard_def)

lemma onload_initial:
  "onload True initial =
     \<lparr>matter = True, engineRef = Some \<lparr>gravity_y = 0.8, walls = createWalls\<rparr>,
      piecesRef = createPieces 80, boardRef = Some (createSquares 80),
      isLoaded = True, shakeIntensity = 0\<rparr>"
  by (simp add: onload_def initializePhysics_def initial_def)

lemma ready_engine:
  assumes "ready s" and "engineRef s \<noteq> None"
  shows "matter s"
  using assms by (auto simp add: ready_def split: option.splits)

lemma ready_no_engine:
  assumes "ready s" and "engineRef s = None"
  shows "piecesRef s = [] \<and> boardRef s = None \<and> shakeIntensity s = 0"
  using assms by (auto simp add: ready_def split: option.splits)

lemma ready_range:
  assumes "ready s"
  shows "0 \<le> shakeIntensity s \<and> shakeIntensity s \<le> 10"
  using assms by (simp add: ready_def)

subsection \<open>The invariant of the 3D scene\<close>

lemma runEffects_length: "length (runEffects rnd k f bs) = length bs"
  by (induction bs arbitrary: k) (simp_all add: split_def Let_def)

lemma runEffects_zero: "f \<le> 0 \<Longrightarrow> runEffects rnd k f bs = bs"
  by (induction bs arbitrary: k) (simp_all add: shakeEffect_def)

lemma shakeIntensity3_render3: "shakeIntensity3 (render3 rnd old new) = shakeIntensity3 new"
  by (simp add: render3_def)

lemma ready3_initial: "ready3 initial3"
  by (simp add: ready3_def initial3_def)

lemma ready3_handle3: "ready3 s \<Longrightarrow> ready3 (handle3 e s)"
  by (cases e)
     (auto simp add: ready3_def shakeBoard3_def shakeTimeout_def resetBoard3_def render3_def
        runEffects_length Let_def)

lemma ready3_run3: "ready3 s \<Longrightarrow> ready3 (run3 es s)"
  by (induction es arbitrary: s) (simp_all add: ready3_handle3)

lemma ready3_reachable: "ready3 (run3 es initial3)"
  by (simp add: ready3_run3 ready3_initial)

subsection \<open>The range of the intensity\<close>

text \<open>
  C2: along every run the cumulative shake intensity stays in the integer range 0..10;
  shakeBoard raises it by one and clamps it at 10 (and does nothing before the engine
  exists, when the intensity is 0), and resetBoard returns it to 0. This holds in the 2D
  simulator and in the 3D scene.
\<close>

theorem intensity_in_range:
  "0 \<le> shakeIntensity (run es initial) \<and> shakeIntensity (run es initial) \<le> 10 \<and>
   shakeIntensity (shakeBoard rnd (run es initial)) =
     (if engineRef (run es initial) = None then 0
      else min (shakeIntensity (run es initial) + 1) 10) \<and>
   shakeIntensity (resetBoard (run es initial)) = 0 \<and>
   0 \<le> shakeIntensity3 (run3 es3 initial3) \<and> shakeIntensity3 (run3 es3 initial3) \<le> 10 \<and>
   shakeIntensity3 (shakeBoard3 rnd (run3 es3 initial3)) =
     min (shakeIntensity3 (run3 es3 initial3) + 1) 10 \<and>
   shakeIntensity3 (resetBoard3 rnd (run3 es3 initial3)) = 0"
proof -
  let ?s = "run es initial"
  have r: "ready ?s" by (rule ready_reachable)
  have range: "0 \<le> shakeIntensity ?s \<and> shakeIntensity ?s \<le> 10"
    using r by (rule ready_range)
  have shake: "shakeIntensity (shakeBoard rnd ?s) =
     (if engineRef ?s = None then 0 else min (shakeIntensity ?s + 1) 10)"
  proof (cases "engineRef ?s = None")
    case True
    with ready_no_engine [OF r] show ?thesis
      by (simp add: shakeIntensity_shakeBoard)
  next
    case False
    with ready_engine [OF r] show ?thesis
      by (auto simp add: shakeIntensity_shakeBoard)
  qed
  have reset: "shakeIntensity (resetBoard ?s) = 0"
  proof (cases "engineRef ?s = None")
    case True
    with ready_no_engine [OF r] show ?thesis
      by (simp add: resetBoard_def)
  next
    case False
    with ready_engine [OF r] show ?thesis
      by (auto simp add: resetBoard_def)
  qed
  have range3: "0 \<le> shakeIntensity3 (run3 es3 initial3) \<and> shakeIntensity3 (run3 es3 initial3) \<le> 10"
    using ready3_reachable [of es3] by (simp add: ready3_def)
  have shake3: "shakeIntensity3 (shakeBoard3 rnd (run3 es3 initial3)) =
     min (shakeIntensity3 (run3 es3 initial3) + 1) 10"
    by (simp add: shakeBoard3_def Let_def shakeIntensity3_render3)
  have reset3: "shakeIntensity3 (resetBoard3 rnd (run3 es3 initial3)) = 0"
    by (simp add: resetBoard3_def shakeIntensity3_render3)
  from range shake reset range3 shake3 reset3 show ?thesis by blast
qed

theorem intensity_in_range_witness:
  "shakeIntensity (run [Load True, Shake zeroDraws] initial) = 1 \<and>
   shakeIntensity (shakeBoard zeroDraws (run [Load True, Shake zeroDraws] initial)) = 2 \<and>
   shakeIntensity (resetBoard (run [Load True, Shake zeroDraws] initial)) = 0 \<and>
   shakeIntensity3 (shakeBoard3 zeroDraws (run3 [Shake3 zeroDraws] initial3)) = 2 \<and>
   shakeIntensity3 (resetBoard3 zeroDraws (run3 [Shake3 zeroDraws] initial3)) = 0"
  using intensity_in_range [of "[Load True, Shake zeroDraws]" zeroDraws "[Shake3 zeroDraws]"]
  by (simp add: onload_initial shakeIntensity_shakeBoard engineRef_shakeBoard
        shakeBoard3_def shakeIntensity3_render3 initial3_def Let_def)

subsection \<open>Reset of the pieces\<close>


lemma matter_engineStep: "matter (engineStep g s) = matter s"
  by (simp add: engineStep_def)













lemma createPieces_length: "length (createPieces 80) = 32"
  by (simp add: createPieces_def pieceAt_def initialBoard_def toUpperCase_def upperChar_def
        circle_def body.defs piece.defs upt8 Let_def)

lemma newPieces_length: "length newPieces = 32"
  by (simp add: newPieces_def pieceDataAt_def initialBoard_def upt8 Let_def)



subsection \<open>Reset of the board squares\<close>

lemma createSquares_length: "length (createSquares squareSize) = 64"
  by (simp add: createSquares_def length_grid)




lemma ready_squares:
  assumes "ready s" and "engineRef s \<noteq> None"
  shows "\<exists>squares. boardRef s = Some squares \<and>
           map unplaced squares = map unplaced (createSquares 80)"
  using assms by (auto simp add: ready_def split: option.splits)





subsection \<open>Idempotence of reset\<close>




subsection \<open>Bounds of a shake\<close>

lemma draw_centred:
  fixes r :: real
  assumes "0 \<le> r" and "r < 1"
  shows "\<bar>r - 0.5\<bar> \<le> 0.5"
  using assms by linarith

lemma force_bound:
  fixes r n :: real
  assumes "0 \<le> r" and "r < 1" and "0 \<le> n"
  shows "\<bar>(r - 0.5) * n * 0.01\<bar> \<le> 0.005 * n"
proof -
  have "\<bar>(r - 0.5) * n * 0.01\<bar> = \<bar>r - 0.5\<bar> * n * 0.01"
    using assms(3) by (simp add: abs_mult)
  also have "\<dots> \<le> 0.5 * n * 0.01"
    using draw_centred [OF assms(1,2)] assms(3)
    by (intro mult_right_mono) simp_all
  finally show ?thesis by simp
qed

lemma translation_bound:
  fixes r m :: real
  assumes "0 \<le> r" and "r < 1" and "0 \<le> m"
  shows "\<bar>(r - 0.5) * m * 2\<bar> \<le> m"
proof -
  have "\<bar>(r - 0.5) * m * 2\<bar> = \<bar>r - 0.5\<bar> * m * 2"
    using assms(3) by (simp add: abs_mult)
  also have "\<dots> \<le> 0.5 * m * 2"
    using draw_centred [OF assms(1,2)] assms(3)
    by (intro mult_right_mono) simp_all
  finally show ?thesis by simp
qed

lemma applyForce_at_centre:
  "applyForce b (position b) f =
     b\<lparr>force := (fst (force b) + fst f, snd (force b) + snd f)\<rparr>"
  by (simp add: applyForce_def)

lemma shaken_piece:
  assumes "engineRef s \<noteq> None" and "matter s" and "i < length (piecesRef s)"
  shows "piecesRef (shakeBoard rnd s) ! i =
     (piecesRef s ! i)\<lparr>force :=
        (fst (force (piecesRef s ! i)) +
           (rnd (2 * i) - 0.5) * real_of_int (shakeIntensity s + 1) * 0.01,
         snd (force (piecesRef s ! i)) +
           (rnd (2 * i + 1) - 0.5) * real_of_int (shakeIntensity s + 1) * 0.01)\<rparr>"
  using assms by (auto simp add: piecesRef_shakeBoard shakePieces_nth applyForce_at_centre)

lemma length_piecesRef_shakeBoard:
  "length (piecesRef (shakeBoard rnd s)) = length (piecesRef s)"
  by (simp add: piecesRef_shakeBoard shakePieces_length)

lemma shaken_square:
  assumes "engineRef s \<noteq> None" and "matter s" and "boardRef s = Some squares"
    and "5 < shakeIntensity s + 1" and "i < length squares"
  shows "\<exists>squares'. boardRef (shakeBoard rnd s) = Some squares' \<and>
     length squares' = length squares \<and>
     squares' ! i = translate (squares ! i)
       ((rnd (2 * length (piecesRef s) + 2 * i) - 0.5) *
          real_of_int (shakeIntensity s + 1 - 5) * 2,
        (rnd (2 * length (piecesRef s) + 2 * i + 1) - 0.5) *
          real_of_int (shakeIntensity s + 1 - 5) * 2)"
  using assms by (auto simp add: boardRef_shakeBoard shakeSquares_nth shakeSquares_length)

lemma calm_board:
  assumes "shakeIntensity s + 1 \<le> 5"
  shows "boardRef (shakeBoard rnd s) = boardRef s"
  using assms by (simp add: boardRef_shakeBoard split: option.splits)

text \<open>
  C10: in every run of the 2D simulator, with every draw of Math.random in [0, 1), a call
  of shakeBoard changes each component of the force of each piece by at most 0.005 times
  the intensity it uses (the intensity before the call plus one); it leaves the board
  squares as they are when that intensity is at most 5, and otherwise moves each square by
  at most that intensity minus 5 along each axis.
\<close>

theorem shake_forces_bounded:
  assumes "\<forall>k. 0 \<le> rnd k \<and> rnd k < 1"
  shows
    "let s = run es initial; s' = shakeBoard rnd s; intensity = shakeIntensity s + 1
     in length (piecesRef s') = length (piecesRef s) \<and>
        (\<forall>i < length (piecesRef s).
           \<bar>fst (force (piecesRef s' ! i)) - fst (force (piecesRef s ! i))\<bar>
             \<le> 0.005 * real_of_int intensity \<and>
           \<bar>snd (force (piecesRef s' ! i)) - snd (force (piecesRef s ! i))\<bar>
             \<le> 0.005 * real_of_int intensity) \<and>
        (intensity \<le> 5 \<longrightarrow> boardRef s' = boardRef s) \<and>
        (intensity > 5 \<longrightarrow>
           (case (boardRef s, boardRef s') of
              (None, None) \<Rightarrow> True
            | (Some squares, Some squares') \<Rightarrow>
                length squares' = length squares \<and>
                (\<forall>i < length squares.
                   \<bar>fst (position (squares' ! i)) - fst (position (squares ! i))\<bar>
                     \<le> real_of_int (intensity - 5) \<and>
                   \<bar>snd (position (squares' ! i)) - snd (position (squares ! i))\<bar>
                     \<le> real_of_int (intensity - 5))
            | _ \<Rightarrow> False))"
proof -
  let ?s = "run es initial"
  let ?s' = "shakeBoard rnd ?s"
  let ?n = "shakeIntensity ?s + 1"
  have r: "ready ?s" by (rule ready_reachable)
  from ready_range [OF r] have n0: "0 \<le> real_of_int ?n" by simp
  have d: "0 \<le> rnd k" "rnd k < 1" for k using assms by simp_all
  have a: "length (piecesRef ?s') = length (piecesRef ?s)"
    by (rule length_piecesRef_shakeBoard)
  have b: "\<bar>fst (force (piecesRef ?s' ! i)) - fst (force (piecesRef ?s ! i))\<bar>
             \<le> 0.005 * real_of_int ?n \<and>
           \<bar>snd (force (piecesRef ?s' ! i)) - snd (force (piecesRef ?s ! i))\<bar>
             \<le> 0.005 * real_of_int ?n"
    if i: "i < length (piecesRef ?s)" for i
  proof (cases "engineRef ?s = None")
    case True
    with ready_no_engine [OF r] i show ?thesis by simp
  next
    case False
    note p = shaken_piece [OF False ready_engine [OF r False] i, of rnd]
    show ?thesis
      using force_bound [OF d(1) d(2) n0, of "2 * i"]
        force_bound [OF d(1) d(2) n0, of "2 * i + 1"]
      by (simp add: p)
  qed
  have c: "?n \<le> 5 \<longrightarrow> boardRef ?s' = boardRef ?s"
    by (simp add: calm_board)
  have e: "(case (boardRef ?s, boardRef ?s') of
              (None, None) \<Rightarrow> True
            | (Some squares, Some squares') \<Rightarrow>
                length squares' = length squares \<and>
                (\<forall>i < length squares.
                   \<bar>fst (position (squares' ! i)) - fst (position (squares ! i))\<bar>
                     \<le> real_of_int (?n - 5) \<and>
                   \<bar>snd (position (squares' ! i)) - snd (position (squares ! i))\<bar>
                     \<le> real_of_int (?n - 5))
            | _ \<Rightarrow> False)"
    if big: "?n > 5"
  proof (cases "engineRef ?s = None")
    case True
    with ready_no_engine [OF r] show ?thesis
      by (simp add: boardRef_shakeBoard)
  next
    case False
    from ready_squares [OF r False] obtain squares where
      sq: "boardRef ?s = Some squares" by blast
    note m = ready_engine [OF r False]
    from big have m0: "0 \<le> real_of_int (?n - 5)" by simp
    have len: "length (fst (shakeSquares rnd k ?n squares)) = length squares" for k
      by (rule shakeSquares_length)
    have "\<bar>fst (position (fst (shakeSquares rnd k ?n squares) ! i)) -
            fst (position (squares ! i))\<bar> \<le> real_of_int (?n - 5) \<and>
          \<bar>snd (position (fst (shakeSquares rnd k ?n squares) ! i)) -
            snd (position (squares ! i))\<bar> \<le> real_of_int (?n - 5)"
      if "i < length squares" for i k
      using that translation_bound [OF d(1) d(2) m0, of "k + 2 * i"]
        translation_bound [OF d(1) d(2) m0, of "k + 2 * i + 1"]
      by (simp add: shakeSquares_nth translate_def setPosition_def)
    with False m sq big len show ?thesis
      by (simp add: boardRef_shakeBoard)
  qed
  from a b c e show ?thesis by (simp only: Let_def) blast
qed

subsection \<open>Evaluation at the concrete inputs\<close>

lemma zeroDraws_range: "\<forall>k. 0 \<le> zeroDraws k \<and> zeroDraws k < 1"
  by (simp add: zeroDraws_def)

lemma createPieces_first:
  "position (createPieces 80 ! 0) = (40, 40)" "force (createPieces 80 ! 0) = (0, 0)"
  "isStatic (createPieces 80 ! 0) = False"
  by (simp_all add: createPieces_def pieceAt_def initialBoard_def toUpperCase_def upperChar_def
        circle_def body.defs piece.defs upt8 Let_def)

lemma halfDraws_force:
  assumes "engineRef s \<noteq> None" and "matter s" and "0 < length (piecesRef s)"
  shows "force (piecesRef (shakeBoard halfDraws s) ! 0) = force (piecesRef s ! 0)"
  by (simp add: shaken_piece [OF assms] halfDraws_def)

lemma run_fiveShakes:
  "engineRef (run fiveShakes initial) \<noteq> None"
  "matter (run fiveShakes initial)"
  "shakeIntensity (run fiveShakes initial) = 5"
  "boardRef (run fiveShakes initial) = Some (createSquares 80)"
  "length (piecesRef (run fiveShakes initial)) = 32"
  by (simp_all add: fiveShakes_def onload_initial engineRef_shakeBoard matter_shakeBoard
        shakeIntensity_shakeBoard boardRef_shakeBoard length_piecesRef_shakeBoard
        createPieces_length)

lemma run_tenShakes:
  "engineRef (run tenShakes initial) \<noteq> None"
  "matter (run tenShakes initial)"
  "shakeIntensity (run tenShakes initial) = 10"
  "length (piecesRef (run tenShakes initial)) = 32"
  "force (piecesRef (run tenShakes initial) ! 0) = (0, 0)"
  by (simp_all add: tenShakes_def onload_initial engineRef_shakeBoard matter_shakeBoard
        shakeIntensity_shakeBoard length_piecesRef_shakeBoard createPieces_length
        halfDraws_force createPieces_first)

theorem shake_forces_bounded_witness:
  "(\<forall>k. 0 \<le> zeroDraws k \<and> zeroDraws k < 1) \<and>
   (let s = run fiveShakes initial; s' = shakeBoard zeroDraws s
    in \<bar>fst (force (piecesRef s' ! 0)) - fst (force (piecesRef s ! 0))\<bar> \<le> 0.03 \<and>
       \<bar>snd (force (piecesRef s' ! 0)) - snd (force (piecesRef s ! 0))\<bar> \<le> 0.03 \<and>
       (\<exists>squares'. boardRef s' = Some squares' \<and>
          \<bar>fst (position (squares' ! 0)) - fst (position (createSquares 80 ! 0))\<bar> \<le> 1 \<and>
          \<bar>snd (position (squares' ! 0)) - snd (position (createSquares 80 ! 0))\<bar> \<le> 1))"
proof -
  let ?s = "run fiveShakes initial"
  let ?s' = "shakeBoard zeroDraws ?s"
  note w = shake_forces_bounded [OF zeroDraws_range, of fiveShakes, unfolded Let_def]
  from w have w2: "\<forall>i < length (piecesRef ?s).
           \<bar>fst (force (piecesRef ?s' ! i)) - fst (force (piecesRef ?s ! i))\<bar>
             \<le> 0.005 * real_of_int (shakeIntensity ?s + 1) \<and>
           \<bar>snd (force (piecesRef ?s' ! i)) - snd (force (piecesRef ?s ! i))\<bar>
             \<le> 0.005 * real_of_int (shakeIntensity ?s + 1)"
    by (elim conjE)
  from w2 [rule_format, of 0] have a:
    "\<bar>fst (force (piecesRef ?s' ! 0)) - fst (force (piecesRef ?s ! 0))\<bar> \<le> 0.03 \<and>
     \<bar>snd (force (piecesRef ?s' ! 0)) - snd (force (piecesRef ?s ! 0))\<bar> \<le> 0.03"
    by (simp add: run_fiveShakes)
  from shaken_square [OF run_fiveShakes(1) run_fiveShakes(2) run_fiveShakes(4), of 0 zeroDraws]
  obtain squares' where sq: "boardRef ?s' = Some squares'"
    by (auto simp add: run_fiveShakes createSquares_length)
  from w have "shakeIntensity ?s + 1 > 5 \<longrightarrow>
           (case (boardRef ?s, boardRef ?s') of
              (None, None) \<Rightarrow> True
            | (Some squares, Some squares') \<Rightarrow>
                length squares' = length squares \<and>
                (\<forall>i < length squares.
                   \<bar>fst (position (squares' ! i)) - fst (position (squares ! i))\<bar>
                     \<le> real_of_int (shakeIntensity ?s + 1 - 5) \<and>
                   \<bar>snd (position (squares' ! i)) - snd (position (squares ! i))\<bar>
                     \<le> real_of_int (shakeIntensity ?s + 1 - 5))
            | _ \<Rightarrow> False)"
    by (elim conjE)
  then have "\<forall>i < 64.
       \<bar>fst (position (squares' ! i)) - fst (position (createSquares 80 ! i))\<bar> \<le> 1 \<and>
       \<bar>snd (position (squares' ! i)) - snd (position (createSquares 80 ! i))\<bar> \<le> 1"
    by (simp add: run_fiveShakes sq createSquares_length)
  from this [rule_format, of 0] have b:
    "\<bar>fst (position (squares' ! 0)) - fst (position (createSquares 80 ! 0))\<bar> \<le> 1 \<and>
     \<bar>snd (position (squares' ! 0)) - snd (position (createSquares 80 ! 0))\<bar> \<le> 1"
    by simp
  from a b sq zeroDraws_range show ?thesis
    by (simp only: Let_def) blast
qed

subsection \<open>What a shake leaves unchanged\<close>





subsection \<open>The scale of a shake at full intensity\<close>

text \<open>
  C4, at the failing input: after ten shakes the intensity is 10, and an eleventh leaves it
  at 10; with every draw 0, that eleventh shake applies to the first piece, whose force
  accumulator was (0, 0), the force (0 - 0.5) * 11 * 0.01 = - 0.055 along each axis. The
  scale is 11, not the clamped 10, for which the largest force is 0.05.
\<close>

theorem shake_scale_at_maximum:
  "let s = run tenShakes initial; s' = shakeBoard zeroDraws s
   in shakeIntensity s = 10 \<and> shakeIntensity s' = 10 \<and>
      force (piecesRef s ! 0) = (0, 0) \<and>
      force (piecesRef s' ! 0) = ((0 - 0.5) * 11 * 0.01, (0 - 0.5) * 11 * 0.01) \<and>
      \<not> \<bar>fst (force (piecesRef s' ! 0))\<bar> \<le> 0.005 * 10"
proof -
  let ?s = "run tenShakes initial"
  have "0 < length (piecesRef ?s)" by (simp add: run_tenShakes)
  from shaken_piece [OF run_tenShakes(1) run_tenShakes(2) this, of zeroDraws]
  have "force (piecesRef (shakeBoard zeroDraws ?s) ! 0) = (- 0.055, - 0.055)"
    by (simp add: run_tenShakes zeroDraws_def)
  then show ?thesis
    using run_tenShakes(1) run_tenShakes(2)
    by (auto simp add: Let_def run_tenShakes shakeIntensity_shakeBoard)
qed

subsection \<open>The impulse of a shake\<close>

lemma runEffects_nth:
  assumes "0 < f" and "i < length bs"
  shows "runEffects rnd k f bs ! i = applyImpulse (bs ! i) (shakeImpulse rnd (k + 3 * i) f)"
  using assms
proof (induction bs arbitrary: k i)
  case Nil
  then show ?case by simp
next
  case (Cons b bs)
  show ?case
  proof (cases i)
    case 0
    with Cons.prems show ?thesis by (simp add: shakeEffect_def)
  next
    case (Suc j)
    with Cons.prems have "j < length bs" by simp
    from Cons.IH [OF Cons.prems(1) this, of "k + 3"] show ?thesis
      using Suc Cons.prems(1) by (simp add: shakeEffect_def add.assoc)
  qed
qed

lemma impulse_bound:
  fixes r n :: real
  assumes "0 \<le> r" and "r < 1" and "0 \<le> n"
  shows "\<bar>(r - 0.5) * n * 0.4\<bar> \<le> 0.2 * n"
proof -
  have "\<bar>(r - 0.5) * n * 0.4\<bar> = \<bar>r - 0.5\<bar> * n * 0.4"
    using assms(3) by (simp add: abs_mult)
  also have "\<dots> \<le> 0.5 * n * 0.4"
    using draw_centred [OF assms(1,2)] assms(3)
    by (intro mult_right_mono) simp_all
  finally show ?thesis by simp
qed

lemma lift_bound:
  fixes r n :: real
  assumes "0 \<le> r" and "r < 1" and "0 \<le> n"
  shows "0 \<le> r * n * 0.15 \<and> r * n * 0.15 \<le> 0.15 * n"
proof -
  have "r * n \<le> 1 * n"
    using assms by (intro mult_right_mono) simp_all
  with assms show ?thesis by (simp add: mult.commute)
qed

lemma bodies_shakeBoard3:
  assumes "min (shakeIntensity3 t + 1) 10 \<noteq> shakeForce t"
  shows "bodies (shakeBoard3 rnd t) =
     runEffects rnd 0 (min (shakeIntensity3 t + 1) 10) (bodies t)"
  using assms by (simp add: shakeBoard3_def render3_def Let_def)

text \<open>
  C3, counterexample: in the 2D simulator, with every draw 0, the first shake applies to
  the first piece, a dynamic body whose force accumulator was (0, 0), a force whose
  vertical component is - 0.005, which is negative.
\<close>

theorem vertical_force_negative:
  "\<not> isStatic (piecesRef (run [Load True] initial) ! 0) \<and>
   force (piecesRef (run [Load True] initial) ! 0) = (0, 0) \<and>
   force (piecesRef (shakeBoard zeroDraws (run [Load True] initial)) ! 0) = (- 0.005, - 0.005) \<and>
   \<not> 0 \<le> snd (force (piecesRef (shakeBoard zeroDraws (run [Load True] initial)) ! 0))"
proof -
  have e: "engineRef (onload True initial) \<noteq> None" "matter (onload True initial)"
    "0 < length (piecesRef (onload True initial))"
    by (simp_all add: onload_initial createPieces_length)
  from shaken_piece [OF e, of zeroDraws]
  have "force (piecesRef (shakeBoard zeroDraws (onload True initial)) ! 0) = (- 0.005, - 0.005)"
    by (simp add: onload_initial createPieces_first zeroDraws_def)
  then show ?thesis
    by (simp add: onload_initial createPieces_first)
qed

text \<open>
  C3, as amended: with every draw of Math.random in [0, 1), each component of a shake
  impulse is computed from a draw of its own. In the 3D scene, a shake that changes
  shakeForce gives the body of piece i the impulse whose horizontal components x and z
  lie in the symmetric range from - 0.2 f to 0.2 f and whose vertical component y lies
  between 0 and 0.15 f, f being the new shake force. In the 2D simulator, once the engine
  exists, a shake adds to the force of piece i two components that both lie in the
  symmetric range from - 0.005 n to 0.005 n, n being the intensity before the call plus
  one; the vertical one is not kept non-negative.
\<close>

theorem shake_impulse_ranges:
  assumes "\<forall>k. 0 \<le> rnd k \<and> rnd k < 1"
  shows
    "(let t = run3 es3 initial3; f = min (shakeIntensity3 t + 1) 10; t' = shakeBoard3 rnd t
      in f \<noteq> shakeForce t \<longrightarrow>
         length (bodies t') = length (bodies t) \<and>
         (\<forall>i < length (bodies t).
            bodies t' ! i =
              applyImpulse (bodies t ! i)
                ((rnd (3 * i) - 0.5) * real_of_int f * 0.4,
                 rnd (3 * i + 2) * real_of_int f * 0.15,
                 (rnd (3 * i + 1) - 0.5) * real_of_int f * 0.4) \<and>
            \<bar>(rnd (3 * i) - 0.5) * real_of_int f * 0.4\<bar> \<le> 0.2 * real_of_int f \<and>
            0 \<le> rnd (3 * i + 2) * real_of_int f * 0.15 \<and>
            rnd (3 * i + 2) * real_of_int f * 0.15 \<le> 0.15 * real_of_int f \<and>
            \<bar>(rnd (3 * i + 1) - 0.5) * real_of_int f * 0.4\<bar> \<le> 0.2 * real_of_int f)) \<and>
     (let s = run es initial; n = shakeIntensity s + 1; s' = shakeBoard rnd s
      in engineRef s \<noteq> None \<longrightarrow>
         (\<forall>i < length (piecesRef s).
            piecesRef s' ! i = (piecesRef s ! i)\<lparr>force :=
              (fst (force (piecesRef s ! i)) + (rnd (2 * i) - 0.5) * real_of_int n * 0.01,
               snd (force (piecesRef s ! i)) + (rnd (2 * i + 1) - 0.5) * real_of_int n * 0.01)\<rparr> \<and>
            \<bar>(rnd (2 * i) - 0.5) * real_of_int n * 0.01\<bar> \<le> 0.005 * real_of_int n \<and>
            \<bar>(rnd (2 * i + 1) - 0.5) * real_of_int n * 0.01\<bar> \<le> 0.005 * real_of_int n))"
proof -
  have d: "0 \<le> rnd k" "rnd k < 1" for k using assms by simp_all
  let ?t = "run3 es3 initial3"
  let ?f = "min (shakeIntensity3 ?t + 1) 10"
  have "0 \<le> shakeIntensity3 ?t"
    using ready3_reachable [of es3] by (simp add: ready3_def)
  then have f0: "0 < ?f" by simp
  then have f1: "0 \<le> real_of_int ?f" by simp
  have a: "?f \<noteq> shakeForce ?t \<longrightarrow>
         length (bodies (shakeBoard3 rnd ?t)) = length (bodies ?t) \<and>
         (\<forall>i < length (bodies ?t).
            bodies (shakeBoard3 rnd ?t) ! i =
              applyImpulse (bodies ?t ! i)
                ((rnd (3 * i) - 0.5) * real_of_int ?f * 0.4,
                 rnd (3 * i + 2) * real_of_int ?f * 0.15,
                 (rnd (3 * i + 1) - 0.5) * real_of_int ?f * 0.4) \<and>
            \<bar>(rnd (3 * i) - 0.5) * real_of_int ?f * 0.4\<bar> \<le> 0.2 * real_of_int ?f \<and>
            0 \<le> rnd (3 * i + 2) * real_of_int ?f * 0.15 \<and>
            rnd (3 * i + 2) * real_of_int ?f * 0.15 \<le> 0.15 * real_of_int ?f \<and>
            \<bar>(rnd (3 * i + 1) - 0.5) * real_of_int ?f * 0.4\<bar> \<le> 0.2 * real_of_int ?f)"
  proof (intro impI conjI allI)
    assume ch: "?f \<noteq> shakeForce ?t"
    show "length (bodies (shakeBoard3 rnd ?t)) = length (bodies ?t)"
      by (simp only: bodies_shakeBoard3 [OF ch] runEffects_length)
    fix i
    assume i: "i < length (bodies ?t)"
    show "bodies (shakeBoard3 rnd ?t) ! i =
              applyImpulse (bodies ?t ! i)
                ((rnd (3 * i) - 0.5) * real_of_int ?f * 0.4,
                 rnd (3 * i + 2) * real_of_int ?f * 0.15,
                 (rnd (3 * i + 1) - 0.5) * real_of_int ?f * 0.4)"
      using runEffects_nth [OF f0 i, of rnd 0]
      by (simp only: bodies_shakeBoard3 [OF ch]) (simp add: shakeImpulse_def Let_def)
    show "\<bar>(rnd (3 * i) - 0.5) * real_of_int ?f * 0.4\<bar> \<le> 0.2 * real_of_int ?f"
      by (rule impulse_bound [OF d f1])
    show "0 \<le> rnd (3 * i + 2) * real_of_int ?f * 0.15"
      using lift_bound [OF d f1] by blast
    show "rnd (3 * i + 2) * real_of_int ?f * 0.15 \<le> 0.15 * real_of_int ?f"
      using lift_bound [OF d f1] by blast
    show "\<bar>(rnd (3 * i + 1) - 0.5) * real_of_int ?f * 0.4\<bar> \<le> 0.2 * real_of_int ?f"
      by (rule impulse_bound [OF d f1])
  qed
  let ?s = "run es initial"
  let ?n = "shakeIntensity ?s + 1"
  have r: "ready ?s" by (rule ready_reachable)
  from ready_range [OF r] have n0: "0 \<le> real_of_int ?n" by simp
  have b: "engineRef ?s \<noteq> None \<longrightarrow>
         (\<forall>i < length (piecesRef ?s).
            piecesRef (shakeBoard rnd ?s) ! i = (piecesRef ?s ! i)\<lparr>force :=
              (fst (force (piecesRef ?s ! i)) + (rnd (2 * i) - 0.5) * real_of_int ?n * 0.01,
               snd (force (piecesRef ?s ! i)) + (rnd (2 * i + 1) - 0.5) * real_of_int ?n * 0.01)\<rparr> \<and>
            \<bar>(rnd (2 * i) - 0.5) * real_of_int ?n * 0.01\<bar> \<le> 0.005 * real_of_int ?n \<and>
            \<bar>(rnd (2 * i + 1) - 0.5) * real_of_int ?n * 0.01\<bar> \<le> 0.005 * real_of_int ?n)"
  proof (intro impI conjI allI)
    fix i
    assume e: "engineRef ?s \<noteq> None" and i: "i < length (piecesRef ?s)"
    show "piecesRef (shakeBoard rnd ?s) ! i = (piecesRef ?s ! i)\<lparr>force :=
              (fst (force (piecesRef ?s ! i)) + (rnd (2 * i) - 0.5) * real_of_int ?n * 0.01,
               snd (force (piecesRef ?s ! i)) + (rnd (2 * i + 1) - 0.5) * real_of_int ?n * 0.01)\<rparr>"
      by (rule shaken_piece [OF e ready_engine [OF r e] i])
    show "\<bar>(rnd (2 * i) - 0.5) * real_of_int ?n * 0.01\<bar> \<le> 0.005 * real_of_int ?n"
      by (rule force_bound [OF d n0])
    show "\<bar>(rnd (2 * i + 1) - 0.5) * real_of_int ?n * 0.01\<bar> \<le> 0.005 * real_of_int ?n"
      by (rule force_bound [OF d n0])
  qed
  from a b show ?thesis by (simp only: Let_def)
qed

lemma initial3_fields:
  "shakeIntensity3 initial3 = 0" "shakeForce initial3 = 0" "length (bodies initial3) = 32"
  "velocity3 (bodies initial3 ! 0) = (0, 0, 0)"
  by (simp_all add: initial3_def newPieces_length useCylinder_def)

theorem shake_impulse_ranges_witness:
  "(\<forall>k. 0 \<le> zeroDraws k \<and> zeroDraws k < 1) \<and>
   bodies (shakeBoard3 zeroDraws (run3 [] initial3)) ! 0 =
     applyImpulse (bodies initial3 ! 0) (- 0.2, 0, - 0.2) \<and>
   piecesRef (shakeBoard zeroDraws (run [Load True] initial)) ! 0 =
     (createPieces 80 ! 0)\<lparr>force := (- 0.005, - 0.005)\<rparr>"
proof -
  note w = shake_impulse_ranges [OF zeroDraws_range, of "[]" "[Load True]", unfolded Let_def]
  from w have "min (shakeIntensity3 (run3 [] initial3) + 1) 10 \<noteq> shakeForce (run3 [] initial3) \<longrightarrow>
      (\<forall>i < length (bodies (run3 [] initial3)).
         bodies (shakeBoard3 zeroDraws (run3 [] initial3)) ! i =
           applyImpulse (bodies (run3 [] initial3) ! i)
             ((zeroDraws (3 * i) - 0.5) *
                real_of_int (min (shakeIntensity3 (run3 [] initial3) + 1) 10) * 0.4,
              zeroDraws (3 * i + 2) *
                real_of_int (min (shakeIntensity3 (run3 [] initial3) + 1) 10) * 0.15,
              (zeroDraws (3 * i + 1) - 0.5) *
                real_of_int (min (shakeIntensity3 (run3 [] initial3) + 1) 10) * 0.4))"
    by blast
  then have "\<forall>i < 32. bodies (shakeBoard3 zeroDraws (run3 [] initial3)) ! i =
      applyImpulse (bodies initial3 ! i) (- 0.2, 0, - 0.2)"
    by (simp add: initial3_fields zeroDraws_def)
  from this [rule_format, of 0] have a:
    "bodies (shakeBoard3 zeroDraws (run3 [] initial3)) ! 0 =
       applyImpulse (bodies initial3 ! 0) (- 0.2, 0, - 0.2)"
    by simp
  have e: "engineRef (run [Load True] initial) \<noteq> None"
    by (simp add: onload_initial)
  from w e have "\<forall>i < length (piecesRef (run [Load True] initial)).
      piecesRef (shakeBoard zeroDraws (run [Load True] initial)) ! i =
        (piecesRef (run [Load True] initial) ! i)\<lparr>force :=
          (fst (force (piecesRef (run [Load True] initial) ! i)) +
             (zeroDraws (2 * i) - 0.5) *
               real_of_int (shakeIntensity (run [Load True] initial) + 1) * 0.01,
           snd (force (piecesRef (run [Load True] initial) ! i)) +
             (zeroDraws (2 * i + 1) - 0.5) *
               real_of_int (shakeIntensity (run [Load True] initial) + 1) * 0.01)\<rparr>"
    by blast
  then have "\<forall>i < 32. piecesRef (shakeBoard zeroDraws (run [Load True] initial)) ! i =
      (createPieces 80 ! i)\<lparr>force :=
          (fst (force (createPieces 80 ! i)) - 0.005, snd (force (createPieces 80 ! i)) - 0.005)\<rparr>"
    by (simp add: onload_initial createPieces_length zeroDraws_def)
  from this [rule_format, of 0] have b:
    "piecesRef (shakeBoard zeroDraws (run [Load True] initial)) ! 0 =
       (createPieces 80 ! 0)\<lparr>force := (- 0.005, - 0.005)\<rparr>"
    by (simp add: createPieces_first)
  from a b zeroDraws_range show ?thesis by blast
qed

subsection \<open>A shake force of zero\<close>

text \<open>
  C6: the effect of a piece of the 3D scene, run with a shake force of 0, returns the body
  as it was and draws nothing: no impulse is applied and the velocity is unchanged. So when
  the timeout of a shake sets the shake force to 0, the render that follows leaves the
  body of every piece as it was, in any state of the scene.
\<close>

theorem zero_shake_force_no_impulse:
  "shakeEffect rnd k 0 b = (b, k) \<and>
   velocity3 (fst (shakeEffect rnd k 0 b)) = velocity3 b \<and>
   bodies (shakeTimeout rnd t) = bodies t \<and>
   map velocity3 (bodies (shakeTimeout rnd t)) = map velocity3 (bodies t)"
proof -
  have a: "shakeEffect rnd k 0 b = (b, k)"
    by (simp add: shakeEffect_def)
  have b: "bodies (shakeTimeout rnd t) = bodies t"
    by (simp add: shakeTimeout_def render3_def runEffects_zero)
  from a b show ?thesis by simp
qed

theorem zero_shake_force_no_impulse_witness:
  "shakeEffect zeroDraws 0 0 (useCylinder (0, 0, 0)) = (useCylinder (0, 0, 0), 0) \<and>
   bodies (shakeTimeout zeroDraws initial3) = bodies initial3 \<and>
   velocity3 (bodies (shakeTimeout zeroDraws initial3) ! 0) = (0, 0, 0) \<and>
   bodies (shakeTimeout zeroDraws (shakeBoard3 zeroDraws initial3)) =
     bodies (shakeBoard3 zeroDraws initial3)"
  using zero_shake_force_no_impulse [of zeroDraws 0 "useCylinder (0, 0, 0)" initial3]
    zero_shake_force_no_impulse [of zeroDraws 0 "useCylinder (0, 0, 0)"
      "shakeBoard3 zeroDraws initial3"]
  by (simp add: initial3_fields)

subsection \<open>World setup\<close>


















end
